theory Spec2Isabelle
  imports Main "HOL-Library.Sublist"
begin

section \<open>Image generation core: the orchestration of one generation request\<close>

text \<open>
  This theory embeds \<^verbatim>\<open>generate_image_with_provider\<close> of
  \<^verbatim>\<open>server/tools/utils/image_generation_core.py\<close>. The function is a straight line of
  awaited calls with early exits; the calls go to collaborators whose bodies are not part of
  the sources at hand (the credit operation of \<^verbatim>\<open>db_service\<close>, \<^verbatim>\<open>process_input_image\<close>,
  the providers' \<^verbatim>\<open>generate\<close>, \<^verbatim>\<open>save_image_to_canvas\<close>, the constant \<^verbatim>\<open>DEFAULT_PORT\<close>).
  They are parameters of the model, and each of them may raise.
\<close>

subsection \<open>Python values\<close>

text \<open>
  Exceptions as values. \<^verbatim>\<open>HTTPException\<close> carries the status code and the detail,
  \<^verbatim>\<open>ValueError\<close> its message; \<open>OtherException\<close> stands for whatever else a collaborator
  raises.
\<close>

datatype exn =
    HTTPException (status_code: int) (detail: string)
  | ValueError string
  | OtherException string

text \<open>Truthiness of an \<^verbatim>\<open>Optional[int]\<close>: \<^verbatim>\<open>None\<close> and \<^verbatim>\<open>0\<close> are falsy.\<close>

fun truthy_int :: "int option \<Rightarrow> bool" where
  "truthy_int None = False"
| "truthy_int (Some i) = (i \<noteq> 0)"

text \<open>Truthiness of an \<^verbatim>\<open>Optional[str]\<close>: \<^verbatim>\<open>None\<close> and the empty string are falsy.\<close>

fun truthy_str :: "string option \<Rightarrow> bool" where
  "truthy_str None = False"
| "truthy_str (Some s) = (s \<noteq> [])"

text \<open>Truthiness of an \<^verbatim>\<open>Optional[list]\<close>: \<^verbatim>\<open>None\<close> and the empty list are falsy.\<close>

fun truthy_list :: "'a list option \<Rightarrow> bool" where
  "truthy_list None = False"
| "truthy_list (Some xs) = (xs \<noteq> [])"

text \<open>The decimal text of an integer, as an f-string renders it.\<close>

definition digit_char :: "nat \<Rightarrow> char" where
  "digit_char d = ''0123456789'' ! d"

fun str_nat :: "nat \<Rightarrow> string" where
  "str_nat n = (if n < 10 then [digit_char n] else str_nat (n div 10) @ [digit_char (n mod 10)])"

declare str_nat.simps [simp del]

definition str_int :: "int \<Rightarrow> string" where
  "str_int i = (if i < 0 then CHR ''-'' # str_nat (nat (- i)) else str_nat (nat i))"

subsection \<open>The provider registry\<close>

datatype provider_instance =
    JaazImageProvider
  | OpenAIImageProvider
  | ReplicateImageProvider
  | VolcesProvider
  | WavespeedProvider

definition IMAGE_PROVIDERS :: "string \<rightharpoonup> provider_instance" where
  "IMAGE_PROVIDERS = map_of
     [(''jaaz'', JaazImageProvider),
      (''openai'', OpenAIImageProvider),
      (''replicate'', ReplicateImageProvider),
      (''volces'', VolcesProvider),
      (''wavespeed'', WavespeedProvider)]"

subsection \<open>Request, collaborators and the observable world\<close>

record request =
  canvas_id :: string
  session_id :: string
  provider :: string
  model :: string
  prompt :: string
  aspect_ratio :: string
  input_images :: "string list option"
  user_id :: "int option"

text \<open>The \<^verbatim>\<open>metadata\<close> dictionary, whose five keys are fixed.\<close>

record metadata =
  md_prompt :: string
  md_model :: string
  md_provider :: string
  md_aspect_ratio :: string
  md_input_images :: "string list"

text \<open>The keyword arguments of \<^verbatim>\<open>provider_instance.generate\<close>.\<close>

record generate_kwargs =
  kw_prompt :: string
  kw_model :: string
  kw_aspect_ratio :: string
  kw_input_images :: "string list option"
  kw_metadata :: metadata

text \<open>
  The collaborators. The credit operation reads and writes the credit store \<open>'c\<close>, which only
  \<^verbatim>\<open>db_service\<close> touches; the other three answer from their arguments. Each returns
  \<open>Inl e\<close> when it raises \<open>e\<close>.
\<close>

record 'c env =
  check_and_update_credits :: "int \<Rightarrow> 'c \<Rightarrow> (exn + bool) \<times> 'c"
  process_input_image :: "string \<Rightarrow> exn + string option"
  generate :: "provider_instance \<Rightarrow> generate_kwargs \<Rightarrow> exn + (string \<times> int \<times> int \<times> string)"
  save_image_to_canvas ::
    "string \<Rightarrow> string \<Rightarrow> string \<Rightarrow> string \<Rightarrow> int \<Rightarrow> int \<Rightarrow> exn + string"
  DEFAULT_PORT :: int

text \<open>What a run does to the outside, in the order it does it.\<close>

datatype event =
    is_Credit_check: Credit_check int
  | is_Registry_get: Registry_get string
  | is_Process_input_image: Process_input_image string
  | is_Print: Print string
  | is_Generate: Generate provider_instance generate_kwargs
  | is_Save_image_to_canvas: Save_image_to_canvas string string string string int int

record 'c world =
  credit_store :: 'c
  calls :: "event list"

definition record_call :: "event \<Rightarrow> 'c world \<Rightarrow> 'c world" where
  "record_call e w = w\<lparr>calls := calls w @ [e]\<rparr>"

subsection \<open>Preprocessing of the input images\<close>

text \<open>
  The \<^verbatim>\<open>for image_path in input_images\<close> loop: one call per path, the truthy results
  appended to the accumulator. Nothing catches what \<^verbatim>\<open>process_input_image\<close> raises.
\<close>

fun process_images_loop ::
  "(string \<Rightarrow> exn + string option) \<Rightarrow> string list \<Rightarrow> string list \<Rightarrow> 'c world
     \<Rightarrow> (exn + string list) \<times> 'c world" where
  "process_images_loop p [] processed w = (Inr processed, w)"
| "process_images_loop p (image_path # rest) processed w =
     (let w' = record_call (Process_input_image image_path) w in
      case p image_path of
        Inl e \<Rightarrow> (Inl e, w')
      | Inr processed_image \<Rightarrow>
          if truthy_str processed_image
          then process_images_loop p rest (processed @ [the processed_image]) w'
          else process_images_loop p rest processed w')"

text \<open>
  The block under \<^verbatim>\<open>if input_images:\<close>. When the guard is false the variable keeps its
  initial \<^verbatim>\<open>None\<close>.
\<close>

definition process_input_images ::
  "'c env \<Rightarrow> string list option \<Rightarrow> 'c world \<Rightarrow> (exn + string list option) \<times> 'c world" where
  "process_input_images env imgs w =
     (if truthy_list imgs then
        (case process_images_loop (process_input_image env) (the imgs) [] w of
           (Inl e, w') \<Rightarrow> (Inl e, w')
         | (Inr processed, w') \<Rightarrow>
             (Inr (Some processed),
              record_call
                (Print (''Using '' @ str_nat (length processed) @ '' input images for generation''))
                w'))
      else (Inr None, w))"

subsection \<open>The entry point\<close>

definition unauthenticated :: exn where
  "unauthenticated = HTTPException 401 ''User authentication required for image generation.''"

definition quota_exhausted :: exn where
  "quota_exhausted = HTTPException 429 ''Batas pembuatan gambar harian telah tercapai.''"

definition unknown_provider :: "string \<Rightarrow> exn" where
  "unknown_provider name = ValueError (''Unknown provider: '' @ name)"

definition base_url :: "int \<Rightarrow> string" where
  "base_url port = ''http://localhost:'' @ str_int port"

definition success_message :: "int \<Rightarrow> string \<Rightarrow> string \<Rightarrow> string" where
  "success_message port filename image_url =
     ''image generated successfully ![image_id: '' @ filename @ ''](''
       @ base_url port @ image_url @ '')''"

definition build_metadata :: "request \<Rightarrow> metadata" where
  "build_metadata rq =
     \<lparr>md_prompt = prompt rq, md_model = model rq, md_provider = provider rq,
      md_aspect_ratio = aspect_ratio rq,
      md_input_images = (if truthy_list (input_images rq) then the (input_images rq) else [])\<rparr>"

definition build_kwargs :: "request \<Rightarrow> string list option \<Rightarrow> generate_kwargs" where
  "build_kwargs rq processed_input_images =
     \<lparr>kw_prompt = prompt rq, kw_model = model rq, kw_aspect_ratio = aspect_ratio rq,
      kw_input_images = processed_input_images, kw_metadata = build_metadata rq\<rparr>"

definition generate_image_with_provider ::
  "'c env \<Rightarrow> request \<Rightarrow> 'c world \<Rightarrow> (exn + string) \<times> 'c world" where
  "generate_image_with_provider env rq w0 =
     (if \<not> truthy_int (user_id rq) then (Inl unauthenticated, w0)
      else
        let uid = the (user_id rq);
            (can_generate, store) = check_and_update_credits env uid (credit_store w0);
            w1 = record_call (Credit_check uid) (w0\<lparr>credit_store := store\<rparr>)
        in case can_generate of
             Inl e \<Rightarrow> (Inl e, w1)
           | Inr False \<Rightarrow> (Inl quota_exhausted, w1)
           | Inr True \<Rightarrow>
               let w2 = record_call (Registry_get (provider rq)) w1 in
               (case IMAGE_PROVIDERS (provider rq) of
                  None \<Rightarrow> (Inl (unknown_provider (provider rq)), w2)
                | Some provider_instance \<Rightarrow>
                    (case process_input_images env (input_images rq) w2 of
                       (Inl e, w3) \<Rightarrow> (Inl e, w3)
                     | (Inr processed_input_images, w3) \<Rightarrow>
                         let kwargs = build_kwargs rq processed_input_images;
                             w4 = record_call (Generate provider_instance kwargs) w3
                         in (case generate env provider_instance kwargs of
                               Inl e \<Rightarrow> (Inl e, w4)
                             | Inr (mime_type, width, height, filename) \<Rightarrow>
                                 let w5 = record_call
                                            (Save_image_to_canvas (session_id rq) (canvas_id rq)
                                               filename mime_type width height) w4
                                 in (case save_image_to_canvas env (session_id rq) (canvas_id rq)
                                            filename mime_type width height of
                                       Inl e \<Rightarrow> (Inl e, w5)
                                     | Inr image_url \<Rightarrow>
                                         (Inr (success_message (DEFAULT_PORT env) filename
                                                 image_url), w5))))))"

text \<open>
  Modelled from the spec: the body of \<^verbatim>\<open>DatabaseService.check_and_update_credits\<close>, which
  \<^verbatim>\<open>db_service.py\<close> does not define. Section 4.3: it returns false when the remaining
  credits are exhausted, and otherwise returns true and performs the decrement. The store
  gives every user id its remaining credits.
\<close>

definition check_and_update_credits_spec :: "int \<Rightarrow> (int \<Rightarrow> int) \<Rightarrow> (exn + bool) \<times> (int \<Rightarrow> int)" where
  "check_and_update_credits_spec uid store =
     (if store uid > 0 then (Inr True, store(uid := store uid - 1)) else (Inr False, store))"


subsection \<open>Vocabulary of the properties\<close>

text \<open>
  What one preprocessing call did: it raised, or it returned; a return passes when the value
  is truthy, and \<open>processed_form\<close> is that value.
\<close>

definition raises :: "(string \<Rightarrow> exn + string option) \<Rightarrow> string \<Rightarrow> bool" where
  "raises p x = (case p x of Inl e \<Rightarrow> True | Inr r \<Rightarrow> False)"

definition passes :: "(string \<Rightarrow> exn + string option) \<Rightarrow> string \<Rightarrow> bool" where
  "passes p x = (case p x of Inl e \<Rightarrow> False | Inr r \<Rightarrow> truthy_str r)"

definition processed_form :: "(string \<Rightarrow> exn + string option) \<Rightarrow> string \<Rightarrow> string" where
  "processed_form p x = (case p x of Inr (Some s) \<Rightarrow> s | _ \<Rightarrow> [])"

definition images_of :: "string list option \<Rightarrow> string list" where
  "images_of imgs = (case imgs of None \<Rightarrow> [] | Some xs \<Rightarrow> xs)"

text \<open>
  The images that passed, in the order of the input, each in its processed form; no list at
  all when the request names no image.
\<close>

definition passing_images :: "'c env \<Rightarrow> string list option \<Rightarrow> string list option" where
  "passing_images env imgs =
     (if truthy_list imgs
      then Some (map (processed_form (process_input_image env))
                   (filter (passes (process_input_image env)) (images_of imgs)))
      else None)"

definition preprocessing_calls :: "'c env \<Rightarrow> string list option \<Rightarrow> event list" where
  "preprocessing_calls env imgs =
     (if truthy_list imgs
      then map Process_input_image (images_of imgs) @
           [Print (''Using '' @
                   str_nat (length (filter (passes (process_input_image env)) (images_of imgs))) @
                   '' input images for generation'')]
      else [])"

text \<open>The calls of a run that reaches the provider, up to and including the provider call.\<close>

definition calls_up_to_generate ::
  "'c env \<Rightarrow> request \<Rightarrow> int \<Rightarrow> provider_instance \<Rightarrow> event list" where
  "calls_up_to_generate env rq uid provider_instance =
     [Credit_check uid, Registry_get (provider rq)] @
     preprocessing_calls env (input_images rq) @
     [Generate provider_instance (build_kwargs rq (passing_images env (input_images rq)))]"

text \<open>The \<^verbatim>\<open>input_images\<close> argument of every provider call in a log.\<close>

fun handed_to_provider :: "event list \<Rightarrow> string list option list" where
  "handed_to_provider [] = []"
| "handed_to_provider (Generate provider_instance kwargs # es) =
     kw_input_images kwargs # handed_to_provider es"
| "handed_to_provider (e # es) = handed_to_provider es"

text \<open>
  Reading a decimal text back, to say what \<open>str_int\<close> renders: the value of a digit, of a
  run of digits, of an optional minus sign and digits.
\<close>

definition digit_value :: "char \<Rightarrow> nat" where
  "digit_value c = of_char c - 48"

definition digits_value :: "string \<Rightarrow> nat" where
  "digits_value s = foldl (\<lambda>a c. 10 * a + digit_value c) 0 s"

definition int_of_str :: "string \<Rightarrow> int" where
  "int_of_str s =
     (case s of
        [] \<Rightarrow> 0
      | c # cs \<Rightarrow> if c = CHR ''-'' then - int (digits_value cs) else int (digits_value s))"

text \<open>
  Modelled from the spec: \<^verbatim>\<open>save_image_to_canvas\<close> of \<^verbatim>\<open>image_canvas_utils\<close>, which is
  not among the sources. Sections 4.5 and 6: given session id, canvas id, artifact identifier,
  mime type and dimensions, it records the artifact in the canvas and returns an addressable
  path for it, or fails; the path is a fixed base path plus the artifact identifier, and
  section 8 gives \<^verbatim>\<open>/api/file/abc123\<close> for the artifact \<^verbatim>\<open>abc123\<close>. The write to the
  canvas store is the parameter \<open>write\<close>, which answers with the exception it raises, if any.
\<close>

definition save_image_to_canvas_spec ::
  "(string \<Rightarrow> string \<Rightarrow> string \<Rightarrow> string \<Rightarrow> int \<Rightarrow> int \<Rightarrow> exn option)
     \<Rightarrow> string \<Rightarrow> string \<Rightarrow> string \<Rightarrow> string \<Rightarrow> int \<Rightarrow> int \<Rightarrow> exn + string" where
  "save_image_to_canvas_spec write session canvas artifact mime_type width height =
     (case write session canvas artifact mime_type width height of
        Some e \<Rightarrow> Inl e
      | None \<Rightarrow> Inr (''/api/file/'' @ artifact))"

subsection \<open>A concrete deployment\<close>

text \<open>
  One user (id 7) with one credit left, a preprocessor that cannot read \<^verbatim>\<open>bad.png\<close>, a
  provider that answers with a 512 by 512 PNG named \<^verbatim>\<open>abc123\<close>, a persister that files it
  under \<^verbatim>\<open>/api/file/\<close>, port 57988.
\<close>

definition example_store :: "int \<Rightarrow> int" where
  "example_store = (\<lambda>u. if u = 7 then 1 else 0)"

definition example_preprocessor :: "string \<Rightarrow> exn + string option" where
  "example_preprocessor path =
     (if path = ''bad.png'' then Inr None else Inr (Some (''data:'' @ path)))"

definition example_env :: "(int \<Rightarrow> int) env" where
  "example_env =
     \<lparr>check_and_update_credits = check_and_update_credits_spec,
      process_input_image = example_preprocessor,
      generate = (\<lambda>p kw. Inr (''image/png'', 512, 512, ''abc123'')),
      save_image_to_canvas = (\<lambda>sid cid filename mime w h. Inr (''/api/file/'' @ filename)),
      DEFAULT_PORT = 57988\<rparr>"

definition provider_down_env :: "(int \<Rightarrow> int) env" where
  "provider_down_env =
     example_env\<lparr>generate := (\<lambda>p kw. Inl (OtherException ''connection reset''))\<rparr>"

definition canvas_down_env :: "(int \<Rightarrow> int) env" where
  "canvas_down_env =
     example_env\<lparr>save_image_to_canvas :=
                   (\<lambda>sid cid filename mime w h. Inl (OtherException ''connection reset''))\<rparr>"

text \<open>The same deployment with the persister of the spec, whose writes succeed.\<close>

definition spec_persister_env :: "(int \<Rightarrow> int) env" where
  "spec_persister_env =
     example_env\<lparr>save_image_to_canvas :=
                   save_image_to_canvas_spec (\<lambda>sid cid filename mime w h. None)\<rparr>"

text \<open>The same deployment with a preprocessor that raises on \<^verbatim>\<open>boom.png\<close>.\<close>

definition raising_env :: "(int \<Rightarrow> int) env" where
  "raising_env =
     example_env\<lparr>process_input_image :=
                   (\<lambda>path. if path = ''boom.png''
                           then Inl (OtherException ''cannot read boom.png'')
                           else example_preprocessor path)\<rparr>"

definition example_request :: request where
  "example_request =
     \<lparr>canvas_id = ''c1'', session_id = ''s1'', provider = ''openai'', model = ''x'',
      prompt = ''a cat'', aspect_ratio = ''1:1'', input_images = None, user_id = Some 7\<rparr>"

definition example_world :: "(int \<Rightarrow> int) world" where
  "example_world = \<lparr>credit_store = example_store, calls = []\<rparr>"

section \<open>Properties\<close>

subsection \<open>Auxiliary facts\<close>

lemma str_nat_small: "n < 10 \<Longrightarrow> str_nat n = [digit_char n]"
  by (simp add: str_nat.simps)

lemma str_nat_large: "10 \<le> n \<Longrightarrow> str_nat n = str_nat (n div 10) @ [digit_char (n mod 10)]"
  by (subst str_nat.simps) simp

lemma digit_cases: "d < 10 \<Longrightarrow> d \<in> {0, 1, 2, 3, 4, 5, 6, 7, 8, 9::nat}"
  by auto

lemma digit_value_digit_char: "d < 10 \<Longrightarrow> digit_value (digit_char d) = d"
  using digit_cases [of d] by (auto simp: digit_value_def digit_char_def)

lemma digit_char_not_minus: "d < 10 \<Longrightarrow> digit_char d \<noteq> CHR ''-''"
  using digit_cases [of d] by (auto simp: digit_char_def)

lemma digits_value_snoc: "digits_value (s @ [c]) = 10 * digits_value s + digit_value c"
  by (simp add: digits_value_def)

lemma digits_value_str_nat: "digits_value (str_nat n) = n"
proof (induction n rule: str_nat.induct)
  case (1 n)
  show ?case
  proof (cases "n < 10")
    case True
    then show ?thesis
      by (simp add: str_nat_small digits_value_def digit_value_digit_char)
  next
    case False
    then have "digits_value (str_nat n) = 10 * (n div 10) + n mod 10"
      using 1 by (simp add: str_nat_large digits_value_snoc digit_value_digit_char)
    then show ?thesis by simp
  qed
qed

lemma str_nat_starts_with_digit: "\<exists>d rest. d < 10 \<and> str_nat n = digit_char d # rest"
proof (induction n rule: str_nat.induct)
  case (1 n)
  show ?case
  proof (cases "n < 10")
    case True
    then show ?thesis by (auto simp: str_nat_small)
  next
    case False
    with 1 obtain d rest where "d < 10" "str_nat (n div 10) = digit_char d # rest" by auto
    with False show ?thesis by (auto simp: str_nat_large)
  qed
qed

text \<open>\<open>str_int\<close> renders its argument: reading the text back gives the integer.\<close>

lemma int_of_str_str_int: "int_of_str (str_int i) = i"
proof (cases "i < 0")
  case True
  then show ?thesis by (simp add: int_of_str_def str_int_def digits_value_str_nat)
next
  case False
  obtain d rest where d: "d < 10" "str_nat (nat i) = digit_char d # rest"
    using str_nat_starts_with_digit by blast
  have "int (digits_value (str_nat (nat i))) = i"
    using False by (simp add: digits_value_str_nat)
  with d False show ?thesis
    by (simp add: int_of_str_def str_int_def digit_char_not_minus)
qed

lemma registry_names:
  "dom IMAGE_PROVIDERS = {''jaaz'', ''openai'', ''replicate'', ''volces'', ''wavespeed''}"
  unfolding IMAGE_PROVIDERS_def by (simp add: dom_map_of_conv_image_fst)

lemma process_images_loop_returns:
  "\<forall>x\<in>set xs. \<not> raises p x \<Longrightarrow>
   process_images_loop p xs acc w =
     (Inr (acc @ map (processed_form p) (filter (passes p) xs)),
      w\<lparr>calls := calls w @ map Process_input_image xs\<rparr>)"
proof (induction xs arbitrary: acc w)
  case Nil
  then show ?case by simp
next
  case (Cons x xs)
  from Cons.prems obtain r where r: "p x = Inr r"
    by (auto simp: raises_def split: sum.splits)
  from Cons.prems have rest: "\<forall>y\<in>set xs. \<not> raises p y" by simp
  show ?case
  proof (cases "truthy_str r")
    case True
    then obtain s where s: "r = Some s" "s \<noteq> []" by (cases r) auto
    show ?thesis using r s Cons.IH [OF rest]
      by (simp add: Let_def passes_def processed_form_def record_call_def)
  next
    case False
    show ?thesis using r False Cons.IH [OF rest]
      by (simp add: Let_def passes_def processed_form_def record_call_def)
  qed
qed

lemma process_input_images_returns:
  assumes "\<forall>x\<in>set (images_of imgs). \<not> raises (process_input_image env) x"
  shows "process_input_images env imgs w =
           (Inr (passing_images env imgs), w\<lparr>calls := calls w @ preprocessing_calls env imgs\<rparr>)"
proof (cases "truthy_list imgs")
  case False
  then show ?thesis
    by (simp add: process_input_images_def passing_images_def preprocessing_calls_def)
next
  case True
  then obtain xs where xs: "imgs = Some xs" "xs \<noteq> []" by (cases imgs) auto
  from assms xs have "\<forall>x\<in>set xs. \<not> raises (process_input_image env) x"
    by (simp add: images_of_def)
  from process_images_loop_returns [OF this, of "[]" w] xs show ?thesis
    by (simp add: process_input_images_def passing_images_def preprocessing_calls_def
          images_of_def record_call_def)
qed

lemma process_images_loop_raises:
  "\<forall>y\<in>set before. \<not> raises p y \<Longrightarrow> p x = Inl e \<Longrightarrow>
   process_images_loop p (before @ x # rest) acc w =
     (Inl e, w\<lparr>calls := calls w @ map Process_input_image (before @ [x])\<rparr>)"
proof (induction before arbitrary: acc w)
  case Nil
  then show ?case by (simp add: Let_def record_call_def)
next
  case (Cons y ys)
  from Cons.prems obtain r where r: "p y = Inr r"
    by (auto simp: raises_def split: sum.splits)
  from Cons.prems have rest: "\<forall>z\<in>set ys. \<not> raises p z" by simp
  show ?case using r Cons.IH [OF rest Cons.prems(2)]
    by (simp add: Let_def record_call_def)
qed

lemma process_input_images_raises:
  assumes "images_of imgs = before @ x # rest"
    and "\<forall>y\<in>set before. \<not> raises (process_input_image env) y"
    and "process_input_image env x = Inl e"
  shows "process_input_images env imgs w =
           (Inl e, w\<lparr>calls := calls w @ map Process_input_image (before @ [x])\<rparr>)"
proof -
  from assms(1) have imgs: "imgs = Some (before @ x # rest)"
    by (cases imgs) (simp_all add: images_of_def)
  from process_images_loop_raises [OF assms(2,3), of rest "[]" w] imgs show ?thesis
    by (simp add: process_input_images_def)
qed

text \<open>
  A run that is admitted and finds its provider, and whose preprocessing raises, ends there.
\<close>

lemma run_aborts_in_preprocessing:
  assumes "user_id rq = Some uid" and "uid \<noteq> 0"
    and "check_and_update_credits env uid (credit_store w) = (Inr True, store)"
    and "IMAGE_PROVIDERS (provider rq) = Some provider_instance"
    and "images_of (input_images rq) = before @ x # rest"
    and "\<forall>y\<in>set before. \<not> raises (process_input_image env) y"
    and "process_input_image env x = Inl e"
  shows "generate_image_with_provider env rq w =
           (Inl e,
            \<lparr>credit_store = store,
             calls = calls w @ [Credit_check uid, Registry_get (provider rq)] @
                     map Process_input_image (before @ [x])\<rparr>)"
  using assms(1-4) process_input_images_raises [OF assms(5-7)]
  by (simp add: generate_image_with_provider_def Let_def record_call_def)

text \<open>
  A run that is admitted, finds its provider and gets through preprocessing is the provider
  call and what follows it.
\<close>

lemma run_reaches_provider:
  assumes "user_id rq = Some uid" and "uid \<noteq> 0"
    and "check_and_update_credits env uid (credit_store w) = (Inr True, store)"
    and "IMAGE_PROVIDERS (provider rq) = Some provider_instance"
    and "\<forall>x\<in>set (images_of (input_images rq)). \<not> raises (process_input_image env) x"
  shows "generate_image_with_provider env rq w =
           (let kwargs = build_kwargs rq (passing_images env (input_images rq));
                w4 = \<lparr>credit_store = store,
                      calls = calls w @ calls_up_to_generate env rq uid provider_instance\<rparr>
            in case generate env provider_instance kwargs of
                 Inl e \<Rightarrow> (Inl e, w4)
               | Inr (mime_type, width, height, filename) \<Rightarrow>
                   let w5 = record_call
                              (Save_image_to_canvas (session_id rq) (canvas_id rq)
                                 filename mime_type width height) w4
                   in (case save_image_to_canvas env (session_id rq) (canvas_id rq)
                              filename mime_type width height of
                         Inl e \<Rightarrow> (Inl e, w5)
                       | Inr image_url \<Rightarrow>
                           (Inr (success_message (DEFAULT_PORT env) filename image_url), w5)))"
  using assms(1-4) process_input_images_returns [OF assms(5)]
  by (simp add: generate_image_with_provider_def Let_def record_call_def
        calls_up_to_generate_def split: sum.splits prod.splits)


lemma credit_checks_up_to_generate:
  "filter is_Credit_check (calls_up_to_generate env rq uid provider_instance) = [Credit_check uid]"
  by (simp add: calls_up_to_generate_def preprocessing_calls_def filter_map comp_def)

lemma provider_calls_up_to_generate:
  "filter is_Generate (calls_up_to_generate env rq uid provider_instance) =
     [Generate provider_instance (build_kwargs rq (passing_images env (input_images rq)))]"
  by (simp add: calls_up_to_generate_def preprocessing_calls_def filter_map comp_def)

lemma persister_calls_up_to_generate:
  "filter is_Save_image_to_canvas (calls_up_to_generate env rq uid provider_instance) = []"
  by (simp add: calls_up_to_generate_def preprocessing_calls_def filter_map comp_def)

lemma handed_to_provider_append:
  "handed_to_provider (es @ fs) = handed_to_provider es @ handed_to_provider fs"
  by (induction es rule: handed_to_provider.induct) simp_all

lemma handed_to_provider_preprocessing: "handed_to_provider (map Process_input_image xs) = []"
  by (induction xs) simp_all

lemma handed_to_provider_up_to_generate:
  "handed_to_provider (calls_up_to_generate env rq uid provider_instance) =
     [passing_images env (input_images rq)]"
  by (simp add: calls_up_to_generate_def preprocessing_calls_def handed_to_provider_append
        handed_to_provider_preprocessing build_kwargs_def)

subsection \<open>Authentication\<close>

text \<open>
  C7. A call with a null acting user id fails at once with the authorization error, status
  401, and has no side effect: the world comes back as it was, so the credit store was neither
  read nor decremented and no provider or persister was called.
\<close>

theorem null_user_id_unauthenticated:
  "user_id rq = None \<Longrightarrow>
   generate_image_with_provider env rq w =
     (Inl (HTTPException 401 ''User authentication required for image generation.''), w)"
  by (simp add: generate_image_with_provider_def unauthenticated_def)

theorem null_user_id_unauthenticated_witness:
  "user_id (example_request\<lparr>user_id := None\<rparr>) = None \<and>
   generate_image_with_provider example_env (example_request\<lparr>user_id := None\<rparr>) example_world =
     (Inl (HTTPException 401 ''User authentication required for image generation.''),
      \<lparr>credit_store = example_store, calls = []\<rparr>)"
proof -
  have h: "user_id (example_request\<lparr>user_id := None\<rparr>) = None" by simp
  show ?thesis
    using h null_user_id_unauthenticated [OF h, of example_env example_world]
    by (simp add: example_world_def)
qed

text \<open>
  C10. The guard tests the truthiness of the user id: the integer 0 is rejected as
  unauthenticated, status 401, exactly like a null user id, and every falsy user id (null
  or 0) ends the request at the authentication step with the world as it was.
\<close>

theorem falsy_user_id_unauthenticated:
  "user_id rq = None \<or> user_id rq = Some 0 \<Longrightarrow>
   generate_image_with_provider env rq w = (Inl unauthenticated, w) \<and>
   status_code unauthenticated = 401 \<and>
   generate_image_with_provider env (rq\<lparr>user_id := Some 0\<rparr>) w =
     generate_image_with_provider env (rq\<lparr>user_id := None\<rparr>) w \<and>
   (truthy_int u \<longleftrightarrow> u \<noteq> None \<and> u \<noteq> Some 0)"
  by (cases u) (auto simp: generate_image_with_provider_def unauthenticated_def)

theorem falsy_user_id_unauthenticated_witness:
  "user_id (example_request\<lparr>user_id := Some 0\<rparr>) = Some 0 \<and>
   generate_image_with_provider example_env (example_request\<lparr>user_id := Some 0\<rparr>) example_world =
     (Inl (HTTPException 401 ''User authentication required for image generation.''),
      example_world) \<and>
   \<not> truthy_int (Some 0)"
proof -
  have h: "user_id (example_request\<lparr>user_id := Some 0\<rparr>) = None \<or>
           user_id (example_request\<lparr>user_id := Some 0\<rparr>) = Some 0" by simp
  show ?thesis
    using falsy_user_id_unauthenticated [OF h, of example_env example_world "Some 0"]
    by (simp add: unauthenticated_def)
qed

subsection \<open>Admission\<close>

text \<open>
  C1. When the credit operation answers false, the request ends with the quota failure,
  status 429, which differs from the authentication failure and from every unknown-provider
  failure. The only call made is the credit check: no registry lookup, no preprocessing, no
  provider call, no persister call. The store is the one the credit operation left.
\<close>

theorem quota_exhausted_stops_request:
  assumes "user_id rq = Some uid" and "uid \<noteq> 0"
    and "check_and_update_credits env uid (credit_store w) = (Inr False, store)"
  shows "generate_image_with_provider env rq w =
           (Inl (HTTPException 429 ''Batas pembuatan gambar harian telah tercapai.''),
            \<lparr>credit_store = store, calls = calls w @ [Credit_check uid]\<rparr>) \<and>
         quota_exhausted = HTTPException 429 ''Batas pembuatan gambar harian telah tercapai.'' \<and>
         quota_exhausted \<noteq> unauthenticated \<and>
         quota_exhausted \<noteq> unknown_provider name"
  using assms
  by (simp add: generate_image_with_provider_def Let_def record_call_def quota_exhausted_def
        unauthenticated_def unknown_provider_def)

theorem quota_exhausted_stops_request_witness:
  "user_id (example_request\<lparr>user_id := Some 8\<rparr>) = Some 8 \<and> (8::int) \<noteq> 0 \<and>
   check_and_update_credits example_env 8 (credit_store example_world) =
     (Inr False, example_store) \<and>
   generate_image_with_provider example_env (example_request\<lparr>user_id := Some 8\<rparr>) example_world =
     (Inl (HTTPException 429 ''Batas pembuatan gambar harian telah tercapai.''),
      \<lparr>credit_store = example_store, calls = [Credit_check 8]\<rparr>)"
proof -
  have h1: "user_id (example_request\<lparr>user_id := Some 8\<rparr>) = Some 8" by simp
  have h2: "(8::int) \<noteq> 0" by simp
  have h3: "check_and_update_credits example_env 8 (credit_store example_world) =
              (Inr False, example_store)"
    by (simp add: example_env_def example_world_def example_store_def
          check_and_update_credits_spec_def)
  show ?thesis
    using h1 h3 quota_exhausted_stops_request [OF h1 h2 h3]
    by (simp add: example_world_def)
qed


subsection \<open>Provider resolution\<close>

lemma run_fails_at_lookup:
  assumes "user_id rq = Some uid" and "uid \<noteq> 0"
    and "check_and_update_credits env uid (credit_store w) = (Inr True, store)"
    and "IMAGE_PROVIDERS (provider rq) = None"
  shows "generate_image_with_provider env rq w =
           (Inl (unknown_provider (provider rq)),
            \<lparr>credit_store = store,
             calls = calls w @ [Credit_check uid, Registry_get (provider rq)]\<rparr>)"
  using assms
  by (simp add: generate_image_with_provider_def Let_def record_call_def)

text \<open>
  C3. The registry holds five names. A request that names any other provider never succeeds,
  and once it is authenticated and admitted it fails at the lookup with the error
  \<^verbatim>\<open>ValueError("Unknown provider: <name>")\<close>, which the entry point raises itself and
  hands to its caller: a provider-not-found condition, not a fault of the lookup.
\<close>

theorem unknown_provider_is_reported:
  assumes "provider rq \<notin> {''jaaz'', ''openai'', ''replicate'', ''volces'', ''wavespeed''}"
  shows "dom IMAGE_PROVIDERS = {''jaaz'', ''openai'', ''replicate'', ''volces'', ''wavespeed''} \<and>
         (\<exists>e. fst (generate_image_with_provider env rq w) = Inl e) \<and>
         (user_id rq = Some uid \<and> uid \<noteq> 0 \<and>
          fst (check_and_update_credits env uid (credit_store w)) = Inr True \<longrightarrow>
            fst (generate_image_with_provider env rq w) =
              Inl (ValueError (''Unknown provider: '' @ provider rq)))"
proof -
  from assms have none: "IMAGE_PROVIDERS (provider rq) = None"
    using registry_names by (metis domIff)
  have fails: "\<exists>e. fst (generate_image_with_provider env rq w) = Inl e"
    using none
    by (simp add: generate_image_with_provider_def Let_def
          split: sum.splits prod.splits bool.splits)
  have reported: "fst (generate_image_with_provider env rq w) =
                    Inl (ValueError (''Unknown provider: '' @ provider rq))"
    if auth: "user_id rq = Some uid" "uid \<noteq> 0"
      and admitted: "fst (check_and_update_credits env uid (credit_store w)) = Inr True"
  proof -
    obtain store where "check_and_update_credits env uid (credit_store w) = (Inr True, store)"
      using admitted by (cases "check_and_update_credits env uid (credit_store w)") simp
    from run_fails_at_lookup [OF auth this none] show ?thesis
      by (simp add: unknown_provider_def)
  qed
  from registry_names fails reported show ?thesis by blast
qed

theorem unknown_provider_is_reported_witness:
  "provider (example_request\<lparr>provider := ''midjourney''\<rparr>)
     \<notin> {''jaaz'', ''openai'', ''replicate'', ''volces'', ''wavespeed''} \<and>
   user_id (example_request\<lparr>provider := ''midjourney''\<rparr>) = Some 7 \<and>
   fst (check_and_update_credits example_env 7 (credit_store example_world)) = Inr True \<and>
   fst (generate_image_with_provider example_env (example_request\<lparr>provider := ''midjourney''\<rparr>)
          example_world) = Inl (ValueError ''Unknown provider: midjourney'')"
proof -
  have h1: "provider (example_request\<lparr>provider := ''midjourney''\<rparr>)
              \<notin> {''jaaz'', ''openai'', ''replicate'', ''volces'', ''wavespeed''}"
    by simp
  have h2: "user_id (example_request\<lparr>provider := ''midjourney''\<rparr>) = Some 7"
    by (simp add: example_request_def)
  have h3: "fst (check_and_update_credits example_env 7 (credit_store example_world)) = Inr True"
    by (simp add: example_env_def example_world_def example_store_def
          check_and_update_credits_spec_def)
  show ?thesis
    using h1 h2 h3
      unknown_provider_is_reported [OF h1, of example_env example_world 7]
    by simp
qed

text \<open>
  C4. A request of an authenticated user that is admitted but names an unknown provider keeps
  the store the credit operation produced (the credit stays spent) and fails at the lookup:
  the calls made are the credit check and the registry lookup, in this order, and nothing
  else; no image is preprocessed and no provider is called.
\<close>

theorem unknown_provider_after_admission:
  assumes "user_id rq = Some uid" and "uid \<noteq> 0"
    and "check_and_update_credits env uid (credit_store w) = (Inr True, store)"
    and "IMAGE_PROVIDERS (provider rq) = None"
  shows "generate_image_with_provider env rq w =
           (Inl (ValueError (''Unknown provider: '' @ provider rq)),
            \<lparr>credit_store = store,
             calls = calls w @ [Credit_check uid, Registry_get (provider rq)]\<rparr>)"
  using run_fails_at_lookup [OF assms] by (simp add: unknown_provider_def)

theorem unknown_provider_after_admission_witness:
  "user_id (example_request\<lparr>provider := ''midjourney''\<rparr>) = Some 7 \<and> (7::int) \<noteq> 0 \<and>
   check_and_update_credits example_env 7 (credit_store example_world) =
     (Inr True, example_store(7 := 0)) \<and>
   IMAGE_PROVIDERS (provider (example_request\<lparr>provider := ''midjourney''\<rparr>)) = None \<and>
   example_store 7 = 1 \<and>
   generate_image_with_provider example_env (example_request\<lparr>provider := ''midjourney''\<rparr>)
       example_world =
     (Inl (ValueError ''Unknown provider: midjourney''),
      \<lparr>credit_store = example_store(7 := 0),
       calls = [Credit_check 7, Registry_get ''midjourney'']\<rparr>)"
proof -
  have h1: "user_id (example_request\<lparr>provider := ''midjourney''\<rparr>) = Some 7"
    by (simp add: example_request_def)
  have h2: "(7::int) \<noteq> 0" by simp
  have h3: "check_and_update_credits example_env 7 (credit_store example_world) =
              (Inr True, example_store(7 := 0))"
    by (simp add: example_env_def example_world_def example_store_def
          check_and_update_credits_spec_def)
  have h4: "IMAGE_PROVIDERS (provider (example_request\<lparr>provider := ''midjourney''\<rparr>)) = None"
    by (simp add: IMAGE_PROVIDERS_def)
  have h5: "example_store 7 = 1" by (simp add: example_store_def)
  show ?thesis
    using h1 h3 h4 h5 unknown_provider_after_admission [OF h1 h2 h3 h4]
    by (simp add: example_world_def)
qed


subsection \<open>Dispatch\<close>

text \<open>
  C5. When the provider call raises after a successful admission, the same exception comes
  out of the entry point. The store is the one the credit operation left: among the calls of
  the run there is one credit operation, the admission itself, and none after it, so nothing
  is refunded. There is one provider call and no persister call: no retry with any provider.
\<close>

theorem provider_failure_propagates_without_refund:
  assumes "user_id rq = Some uid" and "uid \<noteq> 0"
    and "check_and_update_credits env uid (credit_store w) = (Inr True, store)"
    and "IMAGE_PROVIDERS (provider rq) = Some provider_instance"
    and "\<forall>x\<in>set (images_of (input_images rq)). \<not> raises (process_input_image env) x"
    and "generate env provider_instance
           (build_kwargs rq (passing_images env (input_images rq))) = Inl e"
  shows "generate_image_with_provider env rq w =
           (Inl e, \<lparr>credit_store = store,
                    calls = calls w @ calls_up_to_generate env rq uid provider_instance\<rparr>) \<and>
         filter is_Credit_check (calls_up_to_generate env rq uid provider_instance) =
           [Credit_check uid] \<and>
         filter is_Generate (calls_up_to_generate env rq uid provider_instance) =
           [Generate provider_instance
              (build_kwargs rq (passing_images env (input_images rq)))] \<and>
         filter is_Save_image_to_canvas (calls_up_to_generate env rq uid provider_instance) = [] \<and>
         last (calls_up_to_generate env rq uid provider_instance) =
           Generate provider_instance (build_kwargs rq (passing_images env (input_images rq)))"
proof -
  have "generate_image_with_provider env rq w =
          (Inl e, \<lparr>credit_store = store,
                   calls = calls w @ calls_up_to_generate env rq uid provider_instance\<rparr>)"
    using run_reaches_provider [OF assms(1-5)] assms(6) by (simp add: Let_def)
  moreover have "last (calls_up_to_generate env rq uid provider_instance) =
      Generate provider_instance (build_kwargs rq (passing_images env (input_images rq)))"
    by (simp add: calls_up_to_generate_def)
  ultimately show ?thesis
    by (simp add: credit_checks_up_to_generate provider_calls_up_to_generate
          persister_calls_up_to_generate)
qed

theorem provider_failure_propagates_without_refund_witness:
  "user_id example_request = Some 7 \<and> (7::int) \<noteq> 0 \<and>
   check_and_update_credits provider_down_env 7 (credit_store example_world) =
     (Inr True, example_store(7 := 0)) \<and>
   IMAGE_PROVIDERS (provider example_request) = Some OpenAIImageProvider \<and>
   images_of (input_images example_request) = [] \<and>
   generate provider_down_env OpenAIImageProvider
     (build_kwargs example_request (passing_images provider_down_env (input_images example_request)))
     = Inl (OtherException ''connection reset'') \<and>
   generate_image_with_provider provider_down_env example_request example_world =
     (Inl (OtherException ''connection reset''),
      \<lparr>credit_store = example_store(7 := 0),
       calls = [Credit_check 7, Registry_get ''openai'',
                Generate OpenAIImageProvider (build_kwargs example_request None)]\<rparr>)"
proof -
  have h1: "user_id example_request = Some 7" by (simp add: example_request_def)
  have h2: "(7::int) \<noteq> 0" by simp
  have h3: "check_and_update_credits provider_down_env 7 (credit_store example_world) =
              (Inr True, example_store(7 := 0))"
    by (simp add: provider_down_env_def example_env_def example_world_def example_store_def
          check_and_update_credits_spec_def)
  have h4: "IMAGE_PROVIDERS (provider example_request) = Some OpenAIImageProvider"
    by (simp add: IMAGE_PROVIDERS_def example_request_def)
  have h5: "\<forall>x\<in>set (images_of (input_images example_request)).
              \<not> raises (process_input_image provider_down_env) x"
    by (simp add: example_request_def images_of_def)
  have h6: "generate provider_down_env OpenAIImageProvider
              (build_kwargs example_request
                 (passing_images provider_down_env (input_images example_request)))
              = Inl (OtherException ''connection reset'')"
    by (simp add: provider_down_env_def)
  have none: "passing_images provider_down_env (input_images example_request) = None"
    by (simp add: passing_images_def example_request_def)
  have log: "calls_up_to_generate provider_down_env example_request 7 OpenAIImageProvider =
               [Credit_check 7, Registry_get ''openai'',
                Generate OpenAIImageProvider (build_kwargs example_request None)]"
    by (simp add: calls_up_to_generate_def preprocessing_calls_def passing_images_def
          example_request_def)
  have imgs: "images_of (input_images example_request) = []"
    by (simp add: example_request_def images_of_def)
  show ?thesis
    using h1 h3 h4 h6 imgs
      provider_failure_propagates_without_refund [OF h1 h2 h3 h4 h5 h6]
    by (simp add: log example_world_def)
qed

subsection \<open>Persistence and the response\<close>

text \<open>
  C8, as the code has it. When the persister raises after a successful provider call, the
  entry point fails with the very exception the persister raised, unchanged: it is not
  swallowed, and the entry point adds no classification of its own. The provider has been
  called once; the persister call is the last call of the run, so nothing is rolled back;
  the store is the one the credit operation left.
\<close>

theorem persistence_failure_propagates:
  assumes "user_id rq = Some uid" and "uid \<noteq> 0"
    and "check_and_update_credits env uid (credit_store w) = (Inr True, store)"
    and "IMAGE_PROVIDERS (provider rq) = Some provider_instance"
    and "\<forall>x\<in>set (images_of (input_images rq)). \<not> raises (process_input_image env) x"
    and "generate env provider_instance
           (build_kwargs rq (passing_images env (input_images rq))) =
           Inr (mime_type, width, height, filename)"
    and "save_image_to_canvas env (session_id rq) (canvas_id rq) filename mime_type width height
           = Inl e"
  shows "generate_image_with_provider env rq w =
           (Inl e,
            \<lparr>credit_store = store,
             calls = calls w @ calls_up_to_generate env rq uid provider_instance @
                     [Save_image_to_canvas (session_id rq) (canvas_id rq) filename mime_type
                        width height]\<rparr>) \<and>
         filter is_Generate
           (calls_up_to_generate env rq uid provider_instance @
            [Save_image_to_canvas (session_id rq) (canvas_id rq) filename mime_type width height])
           = [Generate provider_instance
                (build_kwargs rq (passing_images env (input_images rq)))]"
proof -
  have "generate_image_with_provider env rq w =
          (Inl e,
           \<lparr>credit_store = store,
            calls = calls w @ calls_up_to_generate env rq uid provider_instance @
                    [Save_image_to_canvas (session_id rq) (canvas_id rq) filename mime_type
                       width height]\<rparr>)"
    using run_reaches_provider [OF assms(1-5)] assms(6,7)
    by (simp add: Let_def record_call_def)
  then show ?thesis by (simp add: provider_calls_up_to_generate)
qed


theorem persistence_failure_propagates_witness:
  "user_id example_request = Some 7 \<and> (7::int) \<noteq> 0 \<and>
   check_and_update_credits canvas_down_env 7 (credit_store example_world) =
     (Inr True, example_store(7 := 0)) \<and>
   IMAGE_PROVIDERS (provider example_request) = Some OpenAIImageProvider \<and>
   images_of (input_images example_request) = [] \<and>
   generate canvas_down_env OpenAIImageProvider
     (build_kwargs example_request (passing_images canvas_down_env (input_images example_request)))
     = Inr (''image/png'', 512, 512, ''abc123'') \<and>
   save_image_to_canvas canvas_down_env (session_id example_request) (canvas_id example_request)
     ''abc123'' ''image/png'' 512 512 = Inl (OtherException ''connection reset'') \<and>
   generate_image_with_provider canvas_down_env example_request example_world =
     (Inl (OtherException ''connection reset''),
      \<lparr>credit_store = example_store(7 := 0),
       calls = [Credit_check 7, Registry_get ''openai'',
                Generate OpenAIImageProvider (build_kwargs example_request None),
                Save_image_to_canvas ''s1'' ''c1'' ''abc123'' ''image/png'' 512 512]\<rparr>)"
proof -
  have h1: "user_id example_request = Some 7" by (simp add: example_request_def)
  have h2: "(7::int) \<noteq> 0" by simp
  have h3: "check_and_update_credits canvas_down_env 7 (credit_store example_world) =
              (Inr True, example_store(7 := 0))"
    by (simp add: canvas_down_env_def example_env_def example_world_def example_store_def
          check_and_update_credits_spec_def)
  have h4: "IMAGE_PROVIDERS (provider example_request) = Some OpenAIImageProvider"
    by (simp add: IMAGE_PROVIDERS_def example_request_def)
  have h5: "\<forall>x\<in>set (images_of (input_images example_request)).
              \<not> raises (process_input_image canvas_down_env) x"
    by (simp add: example_request_def images_of_def)
  have h6: "generate canvas_down_env OpenAIImageProvider
              (build_kwargs example_request
                 (passing_images canvas_down_env (input_images example_request)))
              = Inr (''image/png'', 512, 512, ''abc123'')"
    by (simp add: canvas_down_env_def example_env_def)
  have h7: "save_image_to_canvas canvas_down_env (session_id example_request)
              (canvas_id example_request) ''abc123'' ''image/png'' 512 512
              = Inl (OtherException ''connection reset'')"
    by (simp add: canvas_down_env_def)
  have log: "calls_up_to_generate canvas_down_env example_request 7 OpenAIImageProvider =
               [Credit_check 7, Registry_get ''openai'',
                Generate OpenAIImageProvider (build_kwargs example_request None)]"
    by (simp add: calls_up_to_generate_def preprocessing_calls_def passing_images_def
          example_request_def)
  have ids: "session_id example_request = ''s1''" "canvas_id example_request = ''c1''"
    by (simp_all add: example_request_def)
  have imgs: "images_of (input_images example_request) = []"
    by (simp add: example_request_def images_of_def)
  show ?thesis
    using h1 h3 h4 h6 h7 imgs persistence_failure_propagates [OF h1 h2 h3 h4 h5 h6 h7]
    by (simp add: log ids example_world_def)
qed

text \<open>
  The failure reported when the persister is down is the one reported when the provider is
  down: the same request in the same world, the persister raising in one deployment what the
  provider raises in the other, gives the caller the same exception.
\<close>

theorem persistence_failure_not_classified:
  "fst (generate_image_with_provider canvas_down_env example_request example_world) =
     Inl (OtherException ''connection reset'') \<and>
   fst (generate_image_with_provider provider_down_env example_request example_world) =
     Inl (OtherException ''connection reset'') \<and>
   filter is_Save_image_to_canvas
     (calls (snd (generate_image_with_provider canvas_down_env example_request example_world))) =
     [Save_image_to_canvas ''s1'' ''c1'' ''abc123'' ''image/png'' 512 512] \<and>
   filter is_Save_image_to_canvas
     (calls (snd (generate_image_with_provider provider_down_env example_request example_world))) =
     []"
  by (simp add: generate_image_with_provider_def Let_def record_call_def
        canvas_down_env_def provider_down_env_def example_env_def example_request_def
        example_world_def example_store_def check_and_update_credits_spec_def
        IMAGE_PROVIDERS_def process_input_images_def)



text \<open>
  C9. On a fully successful generation, with the persister of the spec, the entry point
  returns the text
  \<^verbatim>\<open>image generated successfully ![image_id: <id>](http://localhost:<port>/api/file/<id>)\<close>,
  where \<^verbatim>\<open><id>\<close> is the artifact identifier the provider returned and \<^verbatim>\<open><port>\<close> is the
  decimal text of the configured \<^verbatim>\<open>DEFAULT_PORT\<close> (reading it back gives the port). The
  text contains the artifact identifier and the base URL, and the artifact URL in it is the
  base URL, then the fixed path \<^verbatim>\<open>/api/file/\<close>, then the artifact identifier: nothing of
  the request enters it.
\<close>

theorem success_message_embeds_artifact:
  assumes "user_id rq = Some uid" and "uid \<noteq> 0"
    and "check_and_update_credits env uid (credit_store w) = (Inr True, store)"
    and "IMAGE_PROVIDERS (provider rq) = Some provider_instance"
    and "\<forall>x\<in>set (images_of (input_images rq)). \<not> raises (process_input_image env) x"
    and "generate env provider_instance
           (build_kwargs rq (passing_images env (input_images rq))) =
           Inr (mime_type, width, height, filename)"
    and "save_image_to_canvas env = save_image_to_canvas_spec write"
    and "write (session_id rq) (canvas_id rq) filename mime_type width height = None"
  shows "fst (generate_image_with_provider env rq w) =
           Inr (''image generated successfully ![image_id: '' @ filename @ ''](''
                  @ ''http://localhost:'' @ str_int (DEFAULT_PORT env)
                  @ ''/api/file/'' @ filename @ '')'') \<and>
         int_of_str (str_int (DEFAULT_PORT env)) = DEFAULT_PORT env \<and>
         sublist filename
           (''image generated successfully ![image_id: '' @ filename @ ''](''
              @ ''http://localhost:'' @ str_int (DEFAULT_PORT env)
              @ ''/api/file/'' @ filename @ '')'') \<and>
         sublist (''http://localhost:'' @ str_int (DEFAULT_PORT env))
           (''image generated successfully ![image_id: '' @ filename @ ''](''
              @ ''http://localhost:'' @ str_int (DEFAULT_PORT env)
              @ ''/api/file/'' @ filename @ '')'') \<and>
         sublist (''http://localhost:'' @ str_int (DEFAULT_PORT env) @ ''/api/file/'' @ filename)
           (''image generated successfully ![image_id: '' @ filename @ ''](''
              @ ''http://localhost:'' @ str_int (DEFAULT_PORT env)
              @ ''/api/file/'' @ filename @ '')'')"
proof -
  let ?base = "''http://localhost:'' @ str_int (DEFAULT_PORT env)"
  let ?url = "''http://localhost:'' @ str_int (DEFAULT_PORT env) @ ''/api/file/'' @ filename"
  let ?pre = "''image generated successfully ![image_id: '' @ filename @ ''](''"
  let ?msg = "''image generated successfully ![image_id: '' @ filename @ ''](''
                @ ''http://localhost:'' @ str_int (DEFAULT_PORT env)
                @ ''/api/file/'' @ filename @ '')''"
  have saved: "save_image_to_canvas env (session_id rq) (canvas_id rq) filename mime_type
                 width height = Inr (''/api/file/'' @ filename)"
    using assms(7,8) by (simp add: save_image_to_canvas_spec_def)
  have run: "fst (generate_image_with_provider env rq w) = Inr ?msg"
    using run_reaches_provider [OF assms(1-5)] assms(6) saved
    by (simp add: Let_def success_message_def base_url_def)
  have "?msg = ''image generated successfully ![image_id: '' @ filename @
                 ('']('' @ ?url @ '')'')"
    by simp
  then have id: "sublist filename ?msg" by (metis sublist_appendI)
  have "?msg = ?pre @ ?base @ (''/api/file/'' @ filename @ '')'')" by simp
  then have base: "sublist ?base ?msg" by (metis sublist_appendI)
  have "?msg = ?pre @ ?url @ '')''" by simp
  then have url: "sublist ?url ?msg" by (metis sublist_appendI)
  from run int_of_str_str_int id base url show ?thesis by blast
qed

theorem success_message_embeds_artifact_witness:
  "user_id example_request = Some 7 \<and> (7::int) \<noteq> 0 \<and>
   check_and_update_credits spec_persister_env 7 (credit_store example_world) =
     (Inr True, example_store(7 := 0)) \<and>
   IMAGE_PROVIDERS (provider example_request) = Some OpenAIImageProvider \<and>
   images_of (input_images example_request) = [] \<and>
   generate spec_persister_env OpenAIImageProvider
     (build_kwargs example_request
        (passing_images spec_persister_env (input_images example_request)))
     = Inr (''image/png'', 512, 512, ''abc123'') \<and>
   save_image_to_canvas spec_persister_env =
     save_image_to_canvas_spec (\<lambda>sid cid filename mime w h. None) \<and>
   DEFAULT_PORT spec_persister_env = 57988 \<and>
   fst (generate_image_with_provider spec_persister_env example_request example_world) =
     Inr ''image generated successfully ![image_id: abc123](http://localhost:57988/api/file/abc123)'' \<and>
   int_of_str ''57988'' = 57988 \<and>
   sublist ''abc123''
     ''image generated successfully ![image_id: abc123](http://localhost:57988/api/file/abc123)'' \<and>
   sublist ''http://localhost:57988''
     ''image generated successfully ![image_id: abc123](http://localhost:57988/api/file/abc123)'' \<and>
   sublist ''http://localhost:57988/api/file/abc123''
     ''image generated successfully ![image_id: abc123](http://localhost:57988/api/file/abc123)''"
proof -
  have h1: "user_id example_request = Some 7" by (simp add: example_request_def)
  have h2: "(7::int) \<noteq> 0" by simp
  have h3: "check_and_update_credits spec_persister_env 7 (credit_store example_world) =
              (Inr True, example_store(7 := 0))"
    by (simp add: spec_persister_env_def example_env_def example_world_def example_store_def
          check_and_update_credits_spec_def)
  have h4: "IMAGE_PROVIDERS (provider example_request) = Some OpenAIImageProvider"
    by (simp add: IMAGE_PROVIDERS_def example_request_def)
  have imgs: "images_of (input_images example_request) = []"
    by (simp add: example_request_def images_of_def)
  have h5: "\<forall>x\<in>set (images_of (input_images example_request)).
              \<not> raises (process_input_image spec_persister_env) x"
    by (simp add: imgs)
  have h6: "generate spec_persister_env OpenAIImageProvider
              (build_kwargs example_request
                 (passing_images spec_persister_env (input_images example_request)))
              = Inr (''image/png'', 512, 512, ''abc123'')"
    by (simp add: spec_persister_env_def example_env_def)
  have h7: "save_image_to_canvas spec_persister_env =
              save_image_to_canvas_spec (\<lambda>sid cid filename mime w h. None)"
    by (simp add: spec_persister_env_def)
  have h8: "(\<lambda>sid cid filename mime w h. None :: exn option)
              (session_id example_request) (canvas_id example_request)
              ''abc123'' ''image/png'' 512 512 = None"
    by simp
  have port: "DEFAULT_PORT spec_persister_env = 57988"
    by (simp add: spec_persister_env_def example_env_def)
  have digits: "str_int 57988 = ''57988''"
    by (simp add: str_int_def str_nat_small str_nat_large digit_char_def)
  have facts:
    "fst (generate_image_with_provider spec_persister_env example_request example_world) =
       Inr ''image generated successfully ![image_id: abc123](http://localhost:57988/api/file/abc123)''"
    "int_of_str ''57988'' = 57988"
    "sublist ''abc123''
       ''image generated successfully ![image_id: abc123](http://localhost:57988/api/file/abc123)''"
    "sublist ''http://localhost:57988''
       ''image generated successfully ![image_id: abc123](http://localhost:57988/api/file/abc123)''"
    "sublist ''http://localhost:57988/api/file/abc123''
       ''image generated successfully ![image_id: abc123](http://localhost:57988/api/file/abc123)''"
    using success_message_embeds_artifact [OF h1 h2 h3 h4 h5 h6 h7 h8]
    unfolding port digits by simp_all
  from facts h1 h2 h3 h4 imgs h6 h7 port show ?thesis by blast
qed


subsection \<open>Preprocessing\<close>

text \<open>
  Two runs of an admitted request with a known provider. The block that preprocesses runs
  under \<^verbatim>\<open>if input_images:\<close>, so for an empty list of references the provider is handed
  \<^verbatim>\<open>None\<close>, not the empty list of passing images. And nothing catches what
  \<^verbatim>\<open>process_input_image\<close> raises: when the second of three images cannot be read and the
  call raises, the request ends with that exception after the second call, the third image is
  never looked at and no provider is called.
\<close>

theorem preprocessing_hands_none_or_aborts:
  "handed_to_provider
     (calls (snd (generate_image_with_provider example_env
                    (example_request\<lparr>input_images := Some []\<rparr>) example_world))) = [None] \<and>
   [None] \<noteq>
     [Some (map (processed_form (process_input_image example_env))
              (filter (passes (process_input_image example_env)) []))] \<and>
   generate_image_with_provider raising_env
       (example_request\<lparr>input_images := Some [''a.png'', ''boom.png'', ''b.png'']\<rparr>)
       example_world =
     (Inl (OtherException ''cannot read boom.png''),
      \<lparr>credit_store = example_store(7 := 0),
       calls = [Credit_check 7, Registry_get ''openai'',
                Process_input_image ''a.png'', Process_input_image ''boom.png'']\<rparr>) \<and>
   handed_to_provider
     [Credit_check 7, Registry_get ''openai'',
      Process_input_image ''a.png'', Process_input_image ''boom.png''] = []"
proof -
  have empty: "handed_to_provider
     (calls (snd (generate_image_with_provider example_env
                    (example_request\<lparr>input_images := Some []\<rparr>) example_world))) = [None]"
    by (simp add: generate_image_with_provider_def Let_def record_call_def
          example_env_def example_request_def example_world_def example_store_def
          check_and_update_credits_spec_def IMAGE_PROVIDERS_def process_input_images_def
          build_kwargs_def)
  have credit: "example_store 7 = 1" by (simp add: example_store_def)
  have aborts: "generate_image_with_provider raising_env
       (example_request\<lparr>input_images := Some [''a.png'', ''boom.png'', ''b.png'']\<rparr>)
       example_world =
     (Inl (OtherException ''cannot read boom.png''),
      \<lparr>credit_store = example_store(7 := 0),
       calls = [Credit_check 7, Registry_get ''openai'',
                Process_input_image ''a.png'', Process_input_image ''boom.png'']\<rparr>)"
    by (simp add: generate_image_with_provider_def Let_def record_call_def
          raising_env_def example_env_def example_request_def example_world_def
          check_and_update_credits_spec_def IMAGE_PROVIDERS_def process_input_images_def
          example_preprocessor_def credit)
  from empty aborts show ?thesis by simp
qed

text \<open>
  C6, as the code has it. Take a request that reaches preprocessing: authenticated, admitted,
  provider known. If every preprocessing call returns, the provider is called, whatever number
  of images returned nothing: for a non-empty list of references it is handed exactly the
  processed forms of the references whose call returned a non-empty value, in the order of
  the input, nothing in place of the others, as many as there are such references; for an
  absent or empty list it is handed \<^verbatim>\<open>None\<close>. If a preprocessing call raises, the request
  ends at the first such call with the exception it raised: the images before it have been
  processed, those after it have not, and no provider is called.
\<close>

theorem preprocessing_keeps_passing_images_in_order:
  assumes "user_id rq = Some uid" and "uid \<noteq> 0"
    and "check_and_update_credits env uid (credit_store w) = (Inr True, store)"
    and "IMAGE_PROVIDERS (provider rq) = Some provider_instance"
  shows "((\<forall>x\<in>set (images_of (input_images rq)). \<not> raises (process_input_image env) x) \<longrightarrow>
            handed_to_provider (calls (snd (generate_image_with_provider env rq w))) =
              handed_to_provider (calls w) @
              [if input_images rq = None \<or> input_images rq = Some [] then None
               else Some (map (processed_form (process_input_image env))
                            (filter (passes (process_input_image env))
                               (images_of (input_images rq))))] \<and>
            length (map (processed_form (process_input_image env))
                      (filter (passes (process_input_image env))
                         (images_of (input_images rq)))) =
              length (filter (passes (process_input_image env))
                        (images_of (input_images rq))) \<and>
            subseq (filter (passes (process_input_image env)) (images_of (input_images rq)))
              (images_of (input_images rq))) \<and>
         (images_of (input_images rq) = before @ x # rest \<and>
          (\<forall>y\<in>set before. \<not> raises (process_input_image env) y) \<and>
          process_input_image env x = Inl e \<longrightarrow>
            generate_image_with_provider env rq w =
              (Inl e,
               \<lparr>credit_store = store,
                calls = calls w @ [Credit_check uid, Registry_get (provider rq)] @
                        map Process_input_image (before @ [x])\<rparr>) \<and>
            handed_to_provider (calls (snd (generate_image_with_provider env rq w))) =
              handed_to_provider (calls w))"
proof (intro conjI impI)
  let ?kw = "build_kwargs rq (passing_images env (input_images rq))"
  let ?log = "calls_up_to_generate env rq uid provider_instance"
  assume returns: "\<forall>x\<in>set (images_of (input_images rq)). \<not> raises (process_input_image env) x"
  have passing: "passing_images env (input_images rq) =
          (if input_images rq = None \<or> input_images rq = Some [] then None
           else Some (map (processed_form (process_input_image env))
                        (filter (passes (process_input_image env))
                           (images_of (input_images rq)))))"
    by (cases "input_images rq") (simp_all add: passing_images_def)
  have "handed_to_provider (calls (snd (generate_image_with_provider env rq w))) =
          handed_to_provider (calls w) @ handed_to_provider ?log"
  proof (cases "generate env provider_instance ?kw")
    case (Inl e)
    then show ?thesis
      using run_reaches_provider [OF assms returns]
      by (simp add: Let_def handed_to_provider_append)
  next
    case (Inr result)
    obtain mime_type width height filename where
      result: "result = (mime_type, width, height, filename)" by (cases result) auto
    show ?thesis
      using run_reaches_provider [OF assms returns] Inr result
      by (cases "save_image_to_canvas env (session_id rq) (canvas_id rq) filename mime_type
                   width height")
        (simp_all add: Let_def record_call_def handed_to_provider_append)
  qed
  then show "handed_to_provider (calls (snd (generate_image_with_provider env rq w))) =
              handed_to_provider (calls w) @
              [if input_images rq = None \<or> input_images rq = Some [] then None
               else Some (map (processed_form (process_input_image env))
                            (filter (passes (process_input_image env))
                               (images_of (input_images rq))))]"
    by (simp add: handed_to_provider_up_to_generate passing)
next
  show "length (map (processed_form (process_input_image env))
                  (filter (passes (process_input_image env)) (images_of (input_images rq)))) =
          length (filter (passes (process_input_image env)) (images_of (input_images rq)))"
    by simp
next
  show "subseq (filter (passes (process_input_image env)) (images_of (input_images rq)))
          (images_of (input_images rq))"
    by simp
next
  assume raising: "images_of (input_images rq) = before @ x # rest \<and>
          (\<forall>y\<in>set before. \<not> raises (process_input_image env) y) \<and>
          process_input_image env x = Inl e"
  then have run: "generate_image_with_provider env rq w =
              (Inl e,
               \<lparr>credit_store = store,
                calls = calls w @ [Credit_check uid, Registry_get (provider rq)] @
                        map Process_input_image (before @ [x])\<rparr>)"
    using run_aborts_in_preprocessing [OF assms, of before x rest e] by blast
  then show "generate_image_with_provider env rq w =
              (Inl e,
               \<lparr>credit_store = store,
                calls = calls w @ [Credit_check uid, Registry_get (provider rq)] @
                        map Process_input_image (before @ [x])\<rparr>)" .
  from run show "handed_to_provider (calls (snd (generate_image_with_provider env rq w))) =
              handed_to_provider (calls w)"
    by (simp add: handed_to_provider_append handed_to_provider_preprocessing)
qed


theorem preprocessing_keeps_passing_images_in_order_witness:
  "user_id (example_request\<lparr>input_images := Some [''a.png'', ''bad.png'', ''b.png'']\<rparr>) = Some 7 \<and>
   (7::int) \<noteq> 0 \<and>
   check_and_update_credits example_env 7 (credit_store example_world) =
     (Inr True, example_store(7 := 0)) \<and>
   IMAGE_PROVIDERS (provider (example_request\<lparr>input_images := Some [''a.png'', ''bad.png'', ''b.png'']\<rparr>))
     = Some OpenAIImageProvider \<and>
   list_all (\<lambda>x. \<not> raises (process_input_image example_env) x)
     [''a.png'', ''bad.png'', ''b.png''] \<and>
   handed_to_provider
     (calls (snd (generate_image_with_provider example_env
                    (example_request\<lparr>input_images := Some [''a.png'', ''bad.png'', ''b.png'']\<rparr>)
                    example_world))) =
     [Some [''data:a.png'', ''data:b.png'']] \<and>
   check_and_update_credits raising_env 7 (credit_store example_world) =
     (Inr True, example_store(7 := 0)) \<and>
   images_of (input_images
       (example_request\<lparr>input_images := Some [''a.png'', ''boom.png'', ''b.png'']\<rparr>)) =
     [''a.png''] @ ''boom.png'' # [''b.png''] \<and>
   list_all (\<lambda>y. \<not> raises (process_input_image raising_env) y) [''a.png''] \<and>
   process_input_image raising_env ''boom.png'' = Inl (OtherException ''cannot read boom.png'') \<and>
   generate_image_with_provider raising_env
       (example_request\<lparr>input_images := Some [''a.png'', ''boom.png'', ''b.png'']\<rparr>)
       example_world =
     (Inl (OtherException ''cannot read boom.png''),
      \<lparr>credit_store = example_store(7 := 0),
       calls = [Credit_check 7, Registry_get ''openai'',
                Process_input_image ''a.png'', Process_input_image ''boom.png'']\<rparr>)"
proof -
  let ?rq = "example_request\<lparr>input_images := Some [''a.png'', ''bad.png'', ''b.png'']\<rparr>"
  let ?rq' = "example_request\<lparr>input_images := Some [''a.png'', ''boom.png'', ''b.png'']\<rparr>"
  have h1: "user_id ?rq = Some 7" by (simp add: example_request_def)
  have h2: "(7::int) \<noteq> 0" by simp
  have h3: "check_and_update_credits example_env 7 (credit_store example_world) =
              (Inr True, example_store(7 := 0))"
    by (simp add: example_env_def example_world_def example_store_def
          check_and_update_credits_spec_def)
  have h4: "IMAGE_PROVIDERS (provider ?rq) = Some OpenAIImageProvider"
    by (simp add: IMAGE_PROVIDERS_def example_request_def)
  have h5: "\<forall>x\<in>set (images_of (input_images ?rq)).
              \<not> raises (process_input_image example_env) x"
    by (simp add: images_of_def raises_def example_env_def example_preprocessor_def)
  have returns: "list_all (\<lambda>x. \<not> raises (process_input_image example_env) x)
                   [''a.png'', ''bad.png'', ''b.png'']"
    by (simp add: raises_def example_env_def example_preprocessor_def)
  have passing: "map (processed_form (process_input_image example_env))
                   (filter (passes (process_input_image example_env))
                      (images_of (Some [''a.png'', ''bad.png'', ''b.png''])))
                 = [''data:a.png'', ''data:b.png'']"
    by (simp add: images_of_def passes_def processed_form_def example_env_def
          example_preprocessor_def)
  have handed: "handed_to_provider
     (calls (snd (generate_image_with_provider example_env ?rq example_world))) =
     [Some [''data:a.png'', ''data:b.png'']]"
    using preprocessing_keeps_passing_images_in_order [OF h1 h2 h3 h4] h5
    by (simp add: passing example_world_def)
  have k1: "user_id ?rq' = Some 7" by (simp add: example_request_def)
  have k3: "check_and_update_credits raising_env 7 (credit_store example_world) =
              (Inr True, example_store(7 := 0))"
    by (simp add: raising_env_def example_env_def example_world_def example_store_def
          check_and_update_credits_spec_def)
  have k4: "IMAGE_PROVIDERS (provider ?rq') = Some OpenAIImageProvider"
    by (simp add: IMAGE_PROVIDERS_def example_request_def)
  have k5: "images_of (input_images ?rq') = [''a.png''] @ ''boom.png'' # [''b.png'']"
    by (simp add: images_of_def)
  have k6: "\<forall>y\<in>set [''a.png'']. \<not> raises (process_input_image raising_env) y"
    by (simp add: raises_def raising_env_def example_preprocessor_def)
  have k6': "list_all (\<lambda>y. \<not> raises (process_input_image raising_env) y) [''a.png'']"
    using k6 by simp
  have k7: "process_input_image raising_env ''boom.png'' =
              Inl (OtherException ''cannot read boom.png'')"
    by (simp add: raising_env_def)
  have aborts: "generate_image_with_provider raising_env ?rq' example_world =
     (Inl (OtherException ''cannot read boom.png''),
      \<lparr>credit_store = example_store(7 := 0),
       calls = [Credit_check 7, Registry_get ''openai'',
                Process_input_image ''a.png'', Process_input_image ''boom.png'']\<rparr>)"
    using preprocessing_keeps_passing_images_in_order
            [OF k1 h2 k3 k4, where before = "[''a.png'']" and x = "''boom.png''"
               and rest = "[''b.png'']" and e = "OtherException ''cannot read boom.png''"]
          k5 k6 k7
    by (simp add: example_world_def example_request_def)
  from h1 h2 h3 h4 returns handed k3 k5 k6' k7 aborts show ?thesis by blast
qed

end
